theory Spec2Isabelle
  imports Complex_Main "HOL-Library.Word"
begin

section \<open>Result codes\<close>

text \<open>
  An HRESULT is a signed 32-bit integer. \<open>SUCCEEDED\<close> and \<open>FAILED\<close> test its sign, as the
  platform macros do. The numeric values of the named codes are those of the platform
  headers (winerror.h); the repository only names them.
\<close>

type_synonym hresult = "32 word"

definition S_OK :: hresult where
  "S_OK = 0"

definition E_INVALIDARG :: hresult where
  "E_INVALIDARG = 0x80070057"

definition E_UNEXPECTED :: hresult where
  "E_UNEXPECTED = 0x8000FFFF"

definition E_FAIL :: hresult where
  "E_FAIL = 0x80004005"

definition SUCCEEDED :: "hresult \<Rightarrow> bool" where
  "SUCCEEDED hr = (0 \<le> sint hr)"

definition FAILED :: "hresult \<Rightarrow> bool" where
  "FAILED hr = (sint hr < 0)"

text \<open>
  \<open>HRESULT_FROM_WIN32(x)\<close>: a code that is zero or already negative is kept, any other
  is tagged with the failure bit and the Win32 facility (7).
\<close>

definition HRESULT_FROM_WIN32 :: "32 word \<Rightarrow> hresult" where
  "HRESULT_FROM_WIN32 x =
     (if sint x \<le> 0 then x else or (or (and x 0x0000FFFF) (push_bit 16 7)) 0x80000000)"

definition ERROR_DEVICE_NOT_CONNECTED :: "32 word" where
  "ERROR_DEVICE_NOT_CONNECTED = 1167"

section \<open>LoggerImpl (Logger.cpp)\<close>

text \<open>
  A wide string is a list of 16-bit code units, the bytes given to the data writer are
  8-bit. \<open>WCharConverter.to_bytes\<close> is a standard-library conversion; the model takes it
  as the parameter \<open>conv\<close>, a total function: the exception the library raises on input
  it cannot convert is outside the model.
\<close>

type_synonym wstring = "16 word list"
type_synonym bytes = "8 word list"

text \<open>
  The fields of \<open>LoggerImpl\<close>. A \<open>ComPtr\<close> is an option: \<open>None\<close> is \<open>nullptr\<close>. The
  objects behind the two pointers live in the record \<open>backing\<close> below.
\<close>

record LoggerImpl =
  m_savingToFile :: bool
  m_logMessages :: "wstring list"
  m_spOutputStream :: "unit option"
  m_spDataWriter :: "unit option"

text \<open>
  The platform objects the logger talks to:
  \<^item> \<open>writerBuffer\<close>: the bytes \<open>WriteBytes\<close> has put into the data writer and
    \<open>StoreAsync\<close> has not yet committed;
  \<^item> \<open>stored\<close>: the bytes \<open>StoreAsync\<close> has committed to the output stream;
  \<^item> \<open>writeCalls\<close>: every buffer passed to \<open>WriteBytes\<close>, in call order, with the
    result of the call;
  \<^item> \<open>openOps\<close>, \<open>storeOps\<close>, \<open>flushOps\<close>: the pending asynchronous operations that
    have \<open>OnFileOpened\<close>, the store handler and the flush handler of
    \<open>FlushMessageQueue\<close> registered as completion handler.
\<close>

record backing =
  writerBuffer :: bytes
  stored :: bytes
  writeCalls :: "(bytes \<times> hresult) list"
  openOps :: nat
  storeOps :: nat
  flushOps :: nat

text \<open>
  What the platform answers during one call of \<open>FlushMessageQueue\<close>: the result of the
  i-th \<open>WriteBytes\<close> of the loop, of \<open>StoreAsync\<close>, and of \<open>put_Completed\<close> on the
  store operation.
\<close>

record flush_env =
  WriteBytes_hr :: "nat \<Rightarrow> hresult"
  StoreAsync_hr :: hresult
  put_Completed_hr :: hresult

definition LoggerImpl_ctor :: LoggerImpl where
  "LoggerImpl_ctor =
     \<lparr>m_savingToFile = False, m_logMessages = [], m_spOutputStream = None,
      m_spDataWriter = None\<rparr>"

text \<open>
  \<open>WriteBytes\<close> on the data writer: a successful call appends to the writer's buffer,
  every call is recorded.
\<close>

definition WriteBytes :: "hresult \<Rightarrow> bytes \<Rightarrow> backing \<Rightarrow> backing" where
  "WriteBytes hr output b =
     (let b1 = b\<lparr>writeCalls := writeCalls b @ [(output, hr)]\<rparr>
      in if SUCCEEDED hr then b1\<lparr>writerBuffer := writerBuffer b1 @ output\<rparr> else b1)"

text \<open>
  The \<open>for each\<close> loop of \<open>FlushMessageQueue\<close>: \<open>hr\<close> is overwritten by every call, so
  after the loop it is the result of the last \<open>WriteBytes\<close>. The counter \<open>length\<close> of
  the source is only read by an assertion and is left out.
\<close>

fun write_loop ::
  "(wstring \<Rightarrow> bytes) \<Rightarrow> (nat \<Rightarrow> hresult) \<Rightarrow> nat \<Rightarrow> wstring list \<Rightarrow> hresult \<times> backing
     \<Rightarrow> hresult \<times> backing" where
  "write_loop conv wr i [] (hr, b) = (hr, b)"
| "write_loop conv wr i (message # messages) (hr, b) =
     write_loop conv wr (Suc i) messages (wr i, WriteBytes (wr i) (conv message) b)"

text \<open>\<open>StoreAsync\<close>: a successful call commits the writer's buffer to the stream.\<close>

definition StoreAsync :: "hresult \<Rightarrow> backing \<Rightarrow> backing" where
  "StoreAsync hr b =
     (if SUCCEEDED hr then b\<lparr>stored := stored b @ writerBuffer b, writerBuffer := []\<rparr>
      else b)"

text \<open>
  \<open>LoggerImpl::FlushMessageQueue\<close>. The local vector \<open>messages\<close> takes the buffer by
  \<open>swap\<close> and is destroyed at every return. The function is only called with the data
  writer attached (\<open>Log\<close> tests it, \<open>OnFileOpened\<close> attaches it first, the flush handler
  runs after a cycle that had it).
\<close>

definition FlushMessageQueue ::
  "(wstring \<Rightarrow> bytes) \<Rightarrow> flush_env \<Rightarrow> LoggerImpl \<times> backing \<Rightarrow> hresult \<times> LoggerImpl \<times> backing" where
  "FlushMessageQueue conv env sb =
     (let s = fst sb; b = snd sb;
          messages = m_logMessages s;
          s1 = s\<lparr>m_logMessages := []\<rparr>
      in if length messages = 0 then (S_OK, s1\<lparr>m_savingToFile := False\<rparr>, b)
         else
           let (hr, b1) = write_loop conv (WriteBytes_hr env) 0 messages (S_OK, b)
           in if FAILED hr then (hr, s1, b1)
              else
                let hr2 = StoreAsync_hr env; b2 = StoreAsync hr2 b1
                in if FAILED hr2 then (hr2, s1, b2)
                   else
                     (put_Completed_hr env, s1\<lparr>m_savingToFile := True\<rparr>,
                      if SUCCEEDED (put_Completed_hr env)
                      then b2\<lparr>storeOps := Suc (storeOps b2)\<rparr> else b2))"

text \<open>
  A \<open>std::wstring\<close> built from a \<open>const wchar_t*\<close> takes the code units before the first
  NUL.
\<close>

definition c_str :: "wstring \<Rightarrow> wstring" where
  "c_str w = takeWhile (\<lambda>c. c \<noteq> 0) w"

text \<open>
  \<open>LoggerImpl::Log\<close>. The message is an HSTRING: \<open>None\<close> is the null handle. The
  content of the HSTRING is read as a raw buffer and pushed as a \<open>std::wstring\<close>, so what
  is stored ends before the first NUL code unit of the message.
\<close>

definition Log ::
  "(wstring \<Rightarrow> bytes) \<Rightarrow> wstring option \<Rightarrow> flush_env \<Rightarrow> LoggerImpl \<times> backing
     \<Rightarrow> hresult \<times> LoggerImpl \<times> backing" where
  "Log conv message env sb =
     (case message of
        None \<Rightarrow> (E_INVALIDARG, sb)
      | Some messageBuffer \<Rightarrow>
          let s = fst sb; b = snd sb;
              s1 = s\<lparr>m_logMessages := m_logMessages s @ [c_str messageBuffer]\<rparr>
          in if m_spDataWriter s1 = None \<or> m_savingToFile s1 then (S_OK, s1, b)
             else FlushMessageQueue conv env (s1, b))"

text \<open>
  \<open>LoggerImpl::OnFileOpened\<close>, the completion handler of the open operation. Its four
  platform calls are chained on success; a failure returns before the writer is attached.
\<close>

record open_env =
  GetResults_hr :: hresult
  GetOutputStreamAt_hr :: hresult
  GetActivationFactory_hr :: hresult
  CreateDataWriter_hr :: hresult

definition OnFileOpened ::
  "(wstring \<Rightarrow> bytes) \<Rightarrow> open_env \<Rightarrow> flush_env \<Rightarrow> LoggerImpl \<times> backing
     \<Rightarrow> hresult \<times> LoggerImpl \<times> backing" where
  "OnFileOpened conv oe env sb =
     (let hr = GetResults_hr oe;
          hr = (if SUCCEEDED hr then GetOutputStreamAt_hr oe else hr);
          hr = (if SUCCEEDED hr then GetActivationFactory_hr oe else hr);
          hr = (if SUCCEEDED hr then CreateDataWriter_hr oe else hr)
      in if FAILED hr then (hr, sb)
         else FlushMessageQueue conv env
                ((fst sb)\<lparr>m_spDataWriter := Some (), m_spOutputStream := Some ()\<rparr>, snd sb))"

text \<open>
  The completion handler of the store operation (the outer lambda of
  \<open>FlushMessageQueue\<close>): when the results can be read it starts \<open>FlushAsync\<close> on the output
  stream and registers the flush handler. It returns \<open>S_OK\<close> whatever happened and does
  not touch the logger's fields.
\<close>

record store_env =
  GetResults_store_hr :: hresult
  FlushAsync_hr :: hresult
  put_Completed_flush_hr :: hresult

definition writeToStoreHandler ::
  "store_env \<Rightarrow> LoggerImpl \<times> backing \<Rightarrow> hresult \<times> LoggerImpl \<times> backing" where
  "writeToStoreHandler se sb =
     (if SUCCEEDED (GetResults_store_hr se)
      then
        if SUCCEEDED (FlushAsync_hr se)
        then
          if SUCCEEDED (put_Completed_flush_hr se)
          then (S_OK, fst sb, (snd sb)\<lparr>flushOps := Suc (flushOps (snd sb))\<rparr>)
          else (S_OK, sb)
        else (S_OK, sb)
      else (S_OK, sb))"

text \<open>The completion handler of the flush operation (the inner lambda).\<close>

definition cbFlush ::
  "(wstring \<Rightarrow> bytes) \<Rightarrow> flush_env \<Rightarrow> LoggerImpl \<times> backing \<Rightarrow> hresult \<times> LoggerImpl \<times> backing" where
  "cbFlush conv env sb = FlushMessageQueue conv env sb"

subsection \<open>The logger as a transition system\<close>

text \<open>
  What can happen to a logger: a call of \<open>Log\<close>, and the platform completing one of the
  pending operations, which runs the handler registered on it. Each event carries the
  platform's answers to the calls the handler makes. A completion event with no such
  operation pending cannot happen; the step function leaves the state as it is.
\<close>

datatype event =
    Ev_Log "wstring option" flush_env
  | Ev_FileOpened open_env flush_env
  | Ev_StoreCompleted store_env
  | Ev_FlushCompleted flush_env

fun step :: "(wstring \<Rightarrow> bytes) \<Rightarrow> event \<Rightarrow> LoggerImpl \<times> backing \<Rightarrow> LoggerImpl \<times> backing" where
  "step conv (Ev_Log message env) sb = snd (Log conv message env sb)"
| "step conv (Ev_FileOpened oe env) sb =
     (if openOps (snd sb) = 0 then sb
      else snd (OnFileOpened conv oe env (fst sb, (snd sb)\<lparr>openOps := openOps (snd sb) - 1\<rparr>)))"
| "step conv (Ev_StoreCompleted se) sb =
     (if storeOps (snd sb) = 0 then sb
      else snd (writeToStoreHandler se (fst sb, (snd sb)\<lparr>storeOps := storeOps (snd sb) - 1\<rparr>)))"
| "step conv (Ev_FlushCompleted env) sb =
     (if flushOps (snd sb) = 0 then sb
      else snd (cbFlush conv env (fst sb, (snd sb)\<lparr>flushOps := flushOps (snd sb) - 1\<rparr>)))"

fun run :: "(wstring \<Rightarrow> bytes) \<Rightarrow> event list \<Rightarrow> LoggerImpl \<times> backing \<Rightarrow> LoggerImpl \<times> backing" where
  "run conv [] sb = sb"
| "run conv (e # es) sb = run conv es (step conv e sb)"

text \<open>
  The logger after \<open>RuntimeClassInitialize\<close> and \<open>OnFileCreated\<close> have run: nothing is
  logged, no writer is attached, the open operation is pending.
\<close>

definition logger_init :: "LoggerImpl \<times> backing" where
  "logger_init =
     (LoggerImpl_ctor,
      \<lparr>writerBuffer = [], stored = [], writeCalls = [], openOps = 1, storeOps = 0,
       flushOps = 0\<rparr>)"

text \<open>The messages a run has appended, in call order.\<close>

fun logged :: "event list \<Rightarrow> wstring list" where
  "logged [] = []"
| "logged (Ev_Log (Some m) env # es) = m # logged es"
| "logged (e # es) = logged es"





text \<open>Concrete platform answers and a concrete converter, for evaluating the model.\<close>

definition env_ok :: flush_env where
  "env_ok = \<lparr>WriteBytes_hr = (\<lambda>i. S_OK), StoreAsync_hr = S_OK, put_Completed_hr = S_OK\<rparr>"

definition env_write_fails :: flush_env where
  "env_write_fails =
     \<lparr>WriteBytes_hr = (\<lambda>i. E_FAIL), StoreAsync_hr = S_OK, put_Completed_hr = S_OK\<rparr>"

definition open_ok :: open_env where
  "open_ok =
     \<lparr>GetResults_hr = S_OK, GetOutputStreamAt_hr = S_OK, GetActivationFactory_hr = S_OK,
      CreateDataWriter_hr = S_OK\<rparr>"



text \<open>On code units below 0x80 the UTF-8 conversion is one byte per unit.\<close>

definition ascii_to_bytes :: "wstring \<Rightarrow> bytes" where
  "ascii_to_bytes w = map ucast w"

text \<open>The logger once the open operation has completed and \<open>OnFileOpened\<close> has attached the writer.\<close>

definition logger_attached :: "LoggerImpl \<times> backing" where
  "logger_attached = run ascii_to_bytes [Ev_FileOpened open_ok env_ok] logger_init"

subsection \<open>Invariants of the transition system\<close>











section \<open>Asynchronous operations (AsyncOperations.h)\<close>

subsection \<open>AsyncCompleteImpl\<close>

text \<open>
  \<open>AsyncCompleteImpl\<close> derives from the library class \<open>AsyncBase\<close>, which is not part of
  the repository. The state of a task is its status, its error code, the registered
  completion handler, whether the completion has been fired, and the handler invocations
  made so far (handler, status passed to it).
\<close>

datatype AsyncStatus = Created | Started | Completed | Canceled | Error

record AsyncCompleteImpl =
  status :: AsyncStatus
  errorCode :: hresult
  completeDelegate :: "nat option"
  callbackMade :: bool
  invocations :: "(nat \<times> AsyncStatus) list"

text \<open>
  Modelled from the spec: the operations of \<open>AsyncBase\<close> (\<open>Start\<close>,
  \<open>TryTransitionToError\<close>, \<open>TryTransitionToCompleted\<close>, \<open>FireCompletion\<close>,
  \<open>PutOnComplete\<close>) are missing from the sources. The spec's AsyncTask: the outcome
  transitions exactly once from pending to a terminal state, the continuation is invoked
  exactly once, and registering a continuation after completion invokes it immediately.
\<close>

definition AsyncBase_new :: AsyncCompleteImpl where
  "AsyncBase_new =
     \<lparr>status = Created, errorCode = S_OK, completeDelegate = None, callbackMade = False,
      invocations = []\<rparr>"

definition AsyncBase_Start :: "AsyncCompleteImpl \<Rightarrow> AsyncCompleteImpl" where
  "AsyncBase_Start t = (if status t = Created then t\<lparr>status := Started\<rparr> else t)"

definition TryTransitionToError :: "hresult \<Rightarrow> AsyncCompleteImpl \<Rightarrow> AsyncCompleteImpl" where
  "TryTransitionToError hr t =
     (if status t = Started then t\<lparr>status := Error, errorCode := hr\<rparr> else t)"

definition TryTransitionToCompleted :: "AsyncCompleteImpl \<Rightarrow> AsyncCompleteImpl" where
  "TryTransitionToCompleted t = (if status t = Started then t\<lparr>status := Completed\<rparr> else t)"

definition FireCompletion :: "AsyncCompleteImpl \<Rightarrow> AsyncCompleteImpl" where
  "FireCompletion t =
     (let t1 = TryTransitionToCompleted t
      in case completeDelegate t1 of
           None \<Rightarrow> t1
         | Some h \<Rightarrow>
             if callbackMade t1 then t1
             else t1\<lparr>callbackMade := True, invocations := invocations t1 @ [(h, status t1)]\<rparr>)"

definition PutOnComplete :: "nat \<Rightarrow> AsyncCompleteImpl \<Rightarrow> AsyncCompleteImpl" where
  "PutOnComplete h t =
     (let t1 = t\<lparr>completeDelegate := Some h\<rparr>
      in if status t1 = Completed \<or> status t1 = Canceled \<or> status t1 = Error
         then FireCompletion t1 else t1)"

text \<open>\<open>AsyncCompleteImpl::RuntimeClassInitialize\<close> starts the task.\<close>

definition AsyncCompleteImpl_make :: AsyncCompleteImpl where
  "AsyncCompleteImpl_make = AsyncBase_Start AsyncBase_new"

text \<open>
  \<open>AsyncCompleteImpl::Completed(hr)\<close>, from the source (the log line aside), and the
  destructor, which calls it with \<open>E_UNEXPECTED\<close>.
\<close>

definition AsyncCompleteImpl_Completed :: "hresult \<Rightarrow> AsyncCompleteImpl \<Rightarrow> AsyncCompleteImpl" where
  "AsyncCompleteImpl_Completed hr t =
     FireCompletion (if FAILED hr then TryTransitionToError hr t else t)"

definition AsyncCompleteImpl_dtor :: "AsyncCompleteImpl \<Rightarrow> AsyncCompleteImpl" where
  "AsyncCompleteImpl_dtor t = AsyncCompleteImpl_Completed E_UNEXPECTED t"

subsection \<open>AsyncEventDelegate::SyncWait\<close>

text \<open>
  The values \<open>WaitForSingleObjectEx\<close> returns and the timeout \<open>INFINITE\<close> (platform
  header values). What the platform answers during one \<open>SyncWait\<close>: the result of
  \<open>put_Completed\<close>; the result of the n-th call of \<open>WaitForSingleObjectEx\<close> on the
  completion event (counted from 0), given the timeout and the alertable flag it is
  called with; and the thread's last-error code read afterwards.
\<close>

definition WAIT_OBJECT_0 :: "32 word" where
  "WAIT_OBJECT_0 = 0"

definition WAIT_IO_COMPLETION :: "32 word" where
  "WAIT_IO_COMPLETION = 0xC0"

definition WAIT_TIMEOUT :: "32 word" where
  "WAIT_TIMEOUT = 0x102"

definition WAIT_FAILED :: "32 word" where
  "WAIT_FAILED = 0xFFFFFFFF"

definition INFINITE :: "32 word" where
  "INFINITE = 0xFFFFFFFF"

record wait_env =
  put_Completed_wait_hr :: hresult
  WaitForSingleObjectEx :: "nat \<Rightarrow> 32 word \<Rightarrow> bool \<Rightarrow> 32 word"
  GetLastError :: "32 word"

text \<open>
  \<open>AsyncEventDelegate::SyncWait\<close>. The result is the code returned and the waits made,
  each with its timeout and its alertable flag.
\<close>

definition SyncWait :: "wait_env \<Rightarrow> 32 word \<Rightarrow> hresult \<times> (32 word \<times> bool) list" where
  "SyncWait we dwMilliseconds =
     (let hr = put_Completed_wait_hr we
      in if FAILED hr then (hr, [])
         else
           let dwWait = WaitForSingleObjectEx we 0 dwMilliseconds True
           in (if WAIT_IO_COMPLETION = dwWait \<or> WAIT_OBJECT_0 = dwWait then S_OK
               else HRESULT_FROM_WIN32 (GetLastError we),
               [(dwMilliseconds, True)]))"

text \<open>
  Concrete waits and a concrete pending task, for evaluating the model. In
  \<open>wait_interrupted\<close> the first wait is ended by an alertable interruption and a second
  wait would find the event signalled; in \<open>wait_failed\<close> the wait fails with the
  last-error code 6.
\<close>

definition wait_ok :: wait_env where
  "wait_ok =
     \<lparr>put_Completed_wait_hr = S_OK, WaitForSingleObjectEx = (\<lambda>n ms a. WAIT_OBJECT_0),
      GetLastError = 0\<rparr>"

definition wait_interrupted :: wait_env where
  "wait_interrupted =
     \<lparr>put_Completed_wait_hr = S_OK,
      WaitForSingleObjectEx = (\<lambda>n ms a. if n = 0 then WAIT_IO_COMPLETION else WAIT_OBJECT_0),
      GetLastError = 0\<rparr>"

definition wait_timed_out :: wait_env where
  "wait_timed_out =
     \<lparr>put_Completed_wait_hr = S_OK, WaitForSingleObjectEx = (\<lambda>n ms a. WAIT_TIMEOUT),
      GetLastError = 0\<rparr>"

definition wait_failed :: wait_env where
  "wait_failed =
     \<lparr>put_Completed_wait_hr = S_OK, WaitForSingleObjectEx = (\<lambda>n ms a. WAIT_FAILED),
      GetLastError = 6\<rparr>"

definition wait_unregistered :: wait_env where
  "wait_unregistered =
     \<lparr>put_Completed_wait_hr = E_FAIL, WaitForSingleObjectEx = (\<lambda>n ms a. WAIT_OBJECT_0),
      GetLastError = 0\<rparr>"

definition task_with_handler :: AsyncCompleteImpl where
  "task_with_handler = PutOnComplete 7 AsyncCompleteImpl_make"

section \<open>CaptureEngineImpl (CaptureEngine.cpp)\<close>

subsection \<open>The platform\<close>

text \<open>
  Every platform call of \<open>CaptureEngine.cpp\<close> has a label; the platform is a record that
  answers each labelled call with an HRESULT and supplies the data the calls read
  (devices, video profiles, the record stream's size). Calls made inside the profile
  loops carry the loop indices.
\<close>

datatype DeviceClass = DeviceClass_VideoCapture | DeviceClass_AudioCapture

datatype fd_call =
    FD_GetActivationFactory DeviceClass
  | FD_FindAllAsyncDeviceClass DeviceClass
  | FD_GetResults DeviceClass
  | FD_get_Size DeviceClass
  | FD_GetAt DeviceClass
  | FD_get_Id DeviceClass

datatype ia_call =
    IA_ActivateInstance_Settings
  | IA_put_VideoDeviceId
  | IA_put_AudioDeviceId
  | IA_put_StreamingCaptureMode
  | IA_put_PhotoCaptureSource
  | IA_As_Settings2
  | IA_put_MediaCategory
  | IA_As_Settings4
  | IA_GetActivationFactory_MediaCapture
  | IA_FindAllVideoProfiles
  | IA_get_Size_profiles
  | IA_GetAt_profile nat
  | IA_get_SupportedRecordMediaDescription nat
  | IA_get_Size_descriptions nat
  | IA_GetAt_description nat nat
  | IA_get_FrameRate nat nat
  | IA_get_Width nat nat
  | IA_get_Height nat nat
  | IA_put_PreviewMediaDescription nat nat
  | IA_put_RecordMediaDescription nat nat
  | IA_put_VideoProfile nat nat
  | IA_ActivateInstance_MediaCapture
  | IA_InitializeWithSettingsAsync
  | IA_MakeAndInitialize_AsyncCompleteImpl
  | IA_put_Completed
  | IA_CopyTo

datatype ih_call =
    IH_get_VideoDeviceController
  | IH_As_AdvancedVideoController4
  | IH_put_DesiredOptimization
  | IH_As_MediaDeviceController
  | IH_GetAvailableMediaStreamProperties
  | IH_As_IMediaCapture

datatype sa_call =
    SA_get_VideoDeviceController
  | SA_As_MediaDeviceController
  | SA_GetMediaStreamProperties
  | SA_As_VideoEncodingProperties
  | SA_get_Width
  | SA_get_Height
  | SA_GetActivationFactory_EncodingProfile
  | SA_CreateMp4
  | SA_get_Video
  | SA_put_Width
  | SA_put_Height
  | SA_get_Audio
  | SA_MakeAndInitialize_NetworkMediaSinkImpl
  | SA_As_IMediaCapture4
  | SA_MakeAndInitialize_MrcVideoEffectDefinitionImpl
  | SA_put_StreamType
  | SA_put_HologramComposition
  | SA_put_VideoStabilization
  | SA_put_GlobalOpacityCoefficient
  | SA_put_RecordingIndicatorEnabled
  | SA_As_IVideoEffectDefinition
  | SA_AddVideoEffectAsync
  | SA_GetResults_video
  | SA_MakeAndInitialize_MrcAudioEffectDefinitionImpl
  | SA_put_MixerMode
  | SA_As_IAudioEffectDefinition
  | SA_AddAudioEffectAsync
  | SA_GetResults_audio
  | SA_As_IMediaExtension
  | SA_add_Failed
  | SA_add_RecordLimitationExceeded
  | SA_MakeAndInitialize_AsyncCompleteImpl
  | SA_StartRecordToCustomSinkAsync
  | SA_put_Completed
  | SA_CopyTo

datatype pcall = FD fd_call | IA ia_call | IH ih_call | SA sa_call

datatype wait_site = W_FindDevice DeviceClass | W_AddVideoEffect | W_AddAudioEffect

text \<open>
  A C \<open>double\<close>: a finite double is the rational it denotes. \<open>round\<close> rounds halfway
  cases away from zero and is exact on doubles; \<open>==\<close> is false when an operand is NaN.
\<close>

datatype c_double = Finite rat | PosInf | NegInf | NaN

definition c_round :: "c_double \<Rightarrow> c_double" where
  "c_round x =
     (case x of
        Finite q \<Rightarrow> Finite (of_int (if 0 \<le> q then \<lfloor>q + 1 / 2\<rfloor> else \<lceil>q - 1 / 2\<rceil>))
      | PosInf \<Rightarrow> PosInf
      | NegInf \<Rightarrow> NegInf
      | NaN \<Rightarrow> NaN)"

definition double_eq :: "c_double \<Rightarrow> c_double \<Rightarrow> bool" where
  "double_eq a b = (a \<noteq> NaN \<and> b \<noteq> NaN \<and> a = b)"

record MediaDescription =
  Width :: "32 word"
  Height :: "32 word"
  FrameRate :: c_double

record VideoProfile =
  ProfileId :: nat
  SupportedRecordMediaDescription :: "MediaDescription list"

record platform =
  hr_of :: "pcall \<Rightarrow> hresult"
  wait_of :: "wait_site \<Rightarrow> wait_env"
  devices :: "DeviceClass \<Rightarrow> string list"
  videoProfiles :: "VideoProfile list"
  recordWidth :: "32 word"
  recordHeight :: "32 word"

text \<open>
  Modelled from the spec: the macros \<open>IFR\<close> and \<open>NULL_CHK\<close> come from a header that is
  not in the sources. \<open>IFR(hr)\<close> returns \<open>hr\<close> from the enclosing function when it is a
  failure ("every chain step either proceeds or carries the first failure"), and a null
  argument is an immediate \<open>InvalidArgument\<close> failure. \<open>IFR\<close> below takes the results of a
  run of consecutive checked calls: the first failure is returned, otherwise the rest of
  the function runs.
\<close>

definition IFR :: "hresult list \<Rightarrow> (hresult + 'a) \<Rightarrow> (hresult + 'a)" where
  "IFR hrs k = (case find FAILED hrs of Some hr \<Rightarrow> Inl hr | None \<Rightarrow> k)"

definition IFR_bind :: "(hresult + 'a) \<Rightarrow> ('a \<Rightarrow> hresult + 'b) \<Rightarrow> (hresult + 'b)" where
  "IFR_bind r k = (case r of Inl hr \<Rightarrow> Inl hr | Inr x \<Rightarrow> k x)"

subsection \<open>FindDeviceId\<close>

definition FindDeviceId :: "platform \<Rightarrow> DeviceClass \<Rightarrow> hresult + string" where
  "FindDeviceId env deviceClass =
     IFR [hr_of env (FD (FD_GetActivationFactory deviceClass)),
          hr_of env (FD (FD_FindAllAsyncDeviceClass deviceClass)),
          fst (SyncWait (wait_of env (W_FindDevice deviceClass)) INFINITE),
          hr_of env (FD (FD_GetResults deviceClass)),
          hr_of env (FD (FD_get_Size deviceClass)),
          (if 0 < length (devices env deviceClass) then S_OK
           else HRESULT_FROM_WIN32 ERROR_DEVICE_NOT_CONNECTED),
          hr_of env (FD (FD_GetAt deviceClass)),
          hr_of env (FD (FD_get_Id deviceClass))]
       (case devices env deviceClass of
          [] \<Rightarrow> Inl (HRESULT_FROM_WIN32 ERROR_DEVICE_NOT_CONNECTED)
        | str # rest \<Rightarrow> Inr str)"

subsection \<open>The engine\<close>

text \<open>
  The \<open>MediaCapture\<close> object behind \<open>_mediaCapture\<close>: the tokens of the handlers registered
  for its two events, the next token it hands out, and how many effect additions and
  recordings have been requested of it.
\<close>

record MediaCapture =
  failedHandlers :: "nat list"
  recordLimitHandlers :: "nat list"
  nextToken :: nat
  videoEffectRequests :: nat
  audioEffectRequests :: nat
  startRecordRequests :: nat

definition MediaCapture_new :: MediaCapture where
  "MediaCapture_new =
     \<lparr>failedHandlers = [], recordLimitHandlers = [], nextToken = 0, videoEffectRequests = 0,
      audioEffectRequests = 0, startRecordRequests = 0\<rparr>"

record NetworkMediaSinkImpl =
  sink_connection :: nat
  sink_width :: "32 word"
  sink_height :: "32 word"
  sink_audio :: bool
  sink_spatial :: "nat option"

text \<open>
  The fields of \<open>CaptureEngineImpl\<close>; the leading underscore of the source's names is
  written \<open>ce_\<close>. The two event tokens are not set by the constructor: \<open>None\<close> is a token
  that was never assigned.
\<close>

record CaptureEngineImpl =
  ce_isInitialized :: bool
  ce_enableAudio :: bool
  ce_enableMrc :: bool
  ce_videoEffectAdded :: bool
  ce_audioEffectAdded :: bool
  ce_captureStarted :: bool
  ce_mediaCapture :: "MediaCapture option"
  ce_spSpatialCoordinateSystem :: "nat option"
  ce_networkMediaSink :: "NetworkMediaSinkImpl option"
  ce_failedEventToken :: "nat option"
  ce_recordLimitExceededEventToken :: "nat option"

definition CaptureEngineImpl_ctor :: CaptureEngineImpl where
  "CaptureEngineImpl_ctor =
     \<lparr>ce_isInitialized = True, ce_enableAudio = False, ce_enableMrc = False,
      ce_videoEffectAdded = False, ce_audioEffectAdded = False, ce_captureStarted = False,
      ce_mediaCapture = None, ce_spSpatialCoordinateSystem = None, ce_networkMediaSink = None,
      ce_failedEventToken = None, ce_recordLimitExceededEventToken = None\<rparr>"

text \<open>\<open>get_IsInitialized\<close>; the flag is the argument's validity, \<open>True\<close> for a valid pointer.\<close>

definition get_IsInitialized :: "bool \<Rightarrow> CaptureEngineImpl \<Rightarrow> hresult \<times> bool option" where
  "get_IsInitialized initialized s =
     (if \<not> initialized then (E_INVALIDARG, None) else (S_OK, Some (ce_isInitialized s)))"

subsection \<open>InitAsync\<close>

datatype StreamingCaptureMode = StreamingCaptureMode_AudioAndVideo | StreamingCaptureMode_Video

text \<open>
  The initialization settings object (\<open>initSettings\<close> and its two further interfaces);
  the photo source and the media category, which are set to constants, are left out.
\<close>

record InitializationSettings =
  VideoDeviceId :: string
  AudioDeviceId :: "string option"
  CaptureMode :: StreamingCaptureMode
  PreviewMediaDescription :: "MediaDescription option"
  RecordMediaDescription :: "MediaDescription option"
  VideoProfile :: "VideoProfile option"

text \<open>
  The test of the inner loop:
  \<open>width >= 1280 && height >= 720 && round(frameRate) == 30\<close> (unsigned comparisons).
\<close>

definition meets_request :: "MediaDescription \<Rightarrow> bool" where
  "meets_request d =
     (1280 \<le> Width d \<and> 720 \<le> Height d \<and> double_eq (c_round (FrameRate d)) (Finite 30))"

text \<open>
  The inner loop over the media descriptions of profile \<open>j\<close>, from index \<open>i\<close>. The state
  of the loop is \<open>captureProfileFound\<close> and the settings.
\<close>

fun description_loop ::
  "platform \<Rightarrow> nat \<Rightarrow> VideoProfile \<Rightarrow> nat \<Rightarrow> MediaDescription list
     \<Rightarrow> bool \<times> InitializationSettings \<Rightarrow> hresult + bool \<times> InitializationSettings" where
  "description_loop env j spProfile i [] (captureProfileFound, st) =
     Inr (captureProfileFound, st)"
| "description_loop env j spProfile i (spMediaDesc # rest) (captureProfileFound, st) =
     (if \<not> captureProfileFound
      then
        IFR [hr_of env (IA (IA_GetAt_description j i)), hr_of env (IA (IA_get_FrameRate j i)),
             hr_of env (IA (IA_get_Width j i)), hr_of env (IA (IA_get_Height j i))]
          (if meets_request spMediaDesc
           then
             IFR [hr_of env (IA (IA_put_PreviewMediaDescription j i)),
                  hr_of env (IA (IA_put_RecordMediaDescription j i)),
                  hr_of env (IA (IA_put_VideoProfile j i))]
               (description_loop env j spProfile (Suc i) rest
                  (True,
                   st\<lparr>PreviewMediaDescription := Some spMediaDesc,
                      RecordMediaDescription := Some spMediaDesc,
                      VideoProfile := Some spProfile\<rparr>))
           else description_loop env j spProfile (Suc i) rest (captureProfileFound, st))
      else description_loop env j spProfile (Suc i) rest (captureProfileFound, st))"

text \<open>The outer loop over the video profiles, from index \<open>j\<close>.\<close>

fun profile_loop ::
  "platform \<Rightarrow> nat \<Rightarrow> VideoProfile list \<Rightarrow> bool \<times> InitializationSettings
     \<Rightarrow> hresult + bool \<times> InitializationSettings" where
  "profile_loop env j [] acc = Inr acc"
| "profile_loop env j (spProfile # rest) acc =
     IFR [hr_of env (IA (IA_GetAt_profile j)),
          hr_of env (IA (IA_get_SupportedRecordMediaDescription j)),
          hr_of env (IA (IA_get_Size_descriptions j))]
       (IFR_bind
          (description_loop env j spProfile 0 (SupportedRecordMediaDescription spProfile) acc)
          (profile_loop env (Suc j) rest))"

text \<open>
  The operation \<open>InitAsync\<close> leaves pending: \<open>InitializeWithSettingsAsync\<close> was issued with
  these settings on this new \<open>MediaCapture\<close>, and the handler that will complete this task
  is registered on it.
\<close>

record init_operation =
  init_settings :: InitializationSettings
  init_mediaCapture :: MediaCapture
  init_task :: AsyncCompleteImpl

text \<open>
  \<open>CaptureEngineImpl::InitAsync\<close>. The argument \<open>action\<close> is the validity of the out
  pointer. The result is the code returned, the engine, the operation a handler was left
  on (if the function got that far), and what was written to \<open>*action\<close> (if anything).
\<close>

definition InitAsync ::
  "platform \<Rightarrow> bool \<Rightarrow> bool \<Rightarrow> CaptureEngineImpl
     \<Rightarrow> hresult \<times> CaptureEngineImpl \<times> init_operation option \<times> AsyncCompleteImpl option" where
  "InitAsync env enableAudio action s =
     (if \<not> action then (E_INVALIDARG, s, None, None)
      else
        let s1 = s\<lparr>ce_enableAudio := enableAudio\<rparr>;
            started =
              IFR_bind (FindDeviceId env DeviceClass_VideoCapture) (\<lambda>videoDeviceId.
              IFR_bind (if ce_enableAudio s1
                        then FindDeviceId env DeviceClass_AudioCapture else Inr []) (\<lambda>audioDeviceId.
              IFR [hr_of env (IA IA_ActivateInstance_Settings),
                   hr_of env (IA IA_put_VideoDeviceId),
                   hr_of env (IA IA_put_AudioDeviceId),
                   hr_of env (IA IA_put_StreamingCaptureMode),
                   hr_of env (IA IA_put_PhotoCaptureSource),
                   hr_of env (IA IA_As_Settings2),
                   hr_of env (IA IA_put_MediaCategory),
                   hr_of env (IA IA_As_Settings4),
                   hr_of env (IA IA_GetActivationFactory_MediaCapture),
                   hr_of env (IA IA_FindAllVideoProfiles),
                   hr_of env (IA IA_get_Size_profiles)]
              (IFR_bind
                 (profile_loop env 0 (videoProfiles env)
                    (False,
                     \<lparr>VideoDeviceId = videoDeviceId,
                      AudioDeviceId = (if ce_enableAudio s1 then Some audioDeviceId else None),
                      CaptureMode =
                        (if ce_enableAudio s1 then StreamingCaptureMode_AudioAndVideo
                         else StreamingCaptureMode_Video),
                      PreviewMediaDescription = None, RecordMediaDescription = None,
                      VideoProfile = None\<rparr>))
                 (\<lambda>found_settings.
              IFR [hr_of env (IA IA_ActivateInstance_MediaCapture),
                   hr_of env (IA IA_InitializeWithSettingsAsync),
                   hr_of env (IA IA_MakeAndInitialize_AsyncCompleteImpl),
                   hr_of env (IA IA_put_Completed)]
                (Inr \<lparr>init_settings = snd found_settings,
                      init_mediaCapture = MediaCapture_new,
                      init_task = AsyncCompleteImpl_make\<rparr>)))))
        in case started of
             Inl hr \<Rightarrow> (hr, s1, None, None)
           | Inr operation \<Rightarrow>
               (hr_of env (IA IA_CopyTo), s1, Some operation,
                if SUCCEEDED (hr_of env (IA IA_CopyTo)) then Some (init_task operation)
                else None))"

text \<open>
  The completion handler \<open>InitAsync\<close> registers. Its calls are chained with \<open>IFC\<close> (on a
  failure go to \<open>done\<close> with that code); the last one stores the engine, and a failed
  \<open>As\<close> leaves the target pointer null. The handler completes the task with the code and
  returns \<open>S_OK\<close>. The status it is called with is only read by an assertion.
\<close>

definition initHandler ::
  "platform \<Rightarrow> init_operation \<Rightarrow> CaptureEngineImpl
     \<Rightarrow> hresult \<times> CaptureEngineImpl \<times> AsyncCompleteImpl" where
  "initHandler env operation s =
     (case find FAILED
             [hr_of env (IH IH_get_VideoDeviceController),
              hr_of env (IH IH_As_AdvancedVideoController4),
              hr_of env (IH IH_put_DesiredOptimization),
              hr_of env (IH IH_As_MediaDeviceController),
              hr_of env (IH IH_GetAvailableMediaStreamProperties)] of
        Some hr \<Rightarrow> (S_OK, s, AsyncCompleteImpl_Completed hr (init_task operation))
      | None \<Rightarrow>
          let hr = hr_of env (IH IH_As_IMediaCapture)
          in (S_OK,
              s\<lparr>ce_mediaCapture :=
                   (if SUCCEEDED hr then Some (init_mediaCapture operation) else None)\<rparr>,
              AsyncCompleteImpl_Completed hr (init_task operation)))"

subsection \<open>StartAsync\<close>

text \<open>
  A call through a null \<open>ComPtr\<close> does not return: the process faults. A method's outcome
  is the code it returns or that fault.
\<close>

datatype 'a outcome = Returned 'a | AccessViolation

definition with_mediaCapture ::
  "(MediaCapture \<Rightarrow> MediaCapture) \<Rightarrow> CaptureEngineImpl \<Rightarrow> CaptureEngineImpl" where
  "with_mediaCapture f s = s\<lparr>ce_mediaCapture := map_option f (ce_mediaCapture s)\<rparr>"

text \<open>
  \<open>add_Failed\<close> and \<open>add_RecordLimitationExceeded\<close> on the \<open>MediaCapture\<close>: the handler is
  registered under a fresh token, which is returned.
\<close>

definition add_Failed :: "MediaCapture \<Rightarrow> nat \<times> MediaCapture" where
  "add_Failed mc =
     (nextToken mc,
      mc\<lparr>failedHandlers := failedHandlers mc @ [nextToken mc], nextToken := Suc (nextToken mc)\<rparr>)"

definition add_RecordLimitationExceeded :: "MediaCapture \<Rightarrow> nat \<times> MediaCapture" where
  "add_RecordLimitationExceeded mc =
     (nextToken mc,
      mc\<lparr>recordLimitHandlers := recordLimitHandlers mc @ [nextToken mc],
         nextToken := Suc (nextToken mc)\<rparr>)"

text \<open>
  The block \<open>if (enableMrc) { ... }\<close> of \<open>StartAsync\<close>. The first component is \<open>None\<close> when
  the block falls through and the outcome when it returns. The result of
  \<open>MakeAndInitialize\<close> for the audio effect definition is not checked: after a failure
  the next call goes through a null pointer.
\<close>

definition StartAsync_mrc ::
  "platform \<Rightarrow> bool \<Rightarrow> CaptureEngineImpl \<Rightarrow> hresult outcome option \<times> CaptureEngineImpl" where
  "StartAsync_mrc env enableMrc s =
     (if \<not> enableMrc then (None, s)
      else
        case find FAILED
               [hr_of env (SA SA_As_IMediaCapture4),
                hr_of env (SA SA_MakeAndInitialize_MrcVideoEffectDefinitionImpl),
                hr_of env (SA SA_put_StreamType),
                hr_of env (SA SA_put_HologramComposition),
                hr_of env (SA SA_put_VideoStabilization),
                hr_of env (SA SA_put_GlobalOpacityCoefficient),
                hr_of env (SA SA_put_RecordingIndicatorEnabled),
                hr_of env (SA SA_As_IVideoEffectDefinition),
                hr_of env (SA SA_AddVideoEffectAsync)] of
          Some hr \<Rightarrow> (Some (Returned hr), s)
        | None \<Rightarrow>
            (let s1 = with_mediaCapture
                        (\<lambda>mc. mc\<lparr>videoEffectRequests := Suc (videoEffectRequests mc)\<rparr>) s
             in (case find FAILED
                        [fst (SyncWait (wait_of env W_AddVideoEffect) INFINITE),
                         hr_of env (SA SA_GetResults_video)] of
                   Some hr \<Rightarrow> (Some (Returned hr), s1)
                 | None \<Rightarrow>
                     (let s2 = s1\<lparr>ce_videoEffectAdded := True\<rparr>
                      in if ce_enableAudio s2
                         then
                           if FAILED
                                (hr_of env (SA SA_MakeAndInitialize_MrcAudioEffectDefinitionImpl))
                           then (Some AccessViolation, s2)
                           else
                             (case find FAILED
                                     [hr_of env (SA SA_put_MixerMode),
                                      hr_of env (SA SA_As_IAudioEffectDefinition),
                                      hr_of env (SA SA_AddAudioEffectAsync)] of
                                Some hr \<Rightarrow> (Some (Returned hr), s2)
                              | None \<Rightarrow>
                                  (let s3 = with_mediaCapture
                                              (\<lambda>mc. mc\<lparr>audioEffectRequests :=
                                                          Suc (audioEffectRequests mc)\<rparr>) s2
                                   in (case find FAILED
                                              [fst (SyncWait (wait_of env W_AddAudioEffect) 500),
                                               hr_of env (SA SA_GetResults_audio)] of
                                         Some hr \<Rightarrow> (Some (Returned hr), s3)
                                       | None \<Rightarrow>
                                           (None,
                                            s3\<lparr>ce_audioEffectAdded := True,
                                               ce_enableMrc := enableMrc\<rparr>))))
                         else (None, s2\<lparr>ce_enableMrc := enableMrc\<rparr>)))))"

text \<open>
  The operation \<open>StartAsync\<close> leaves pending: the recording was started towards this sink
  and the handler that will complete this task is registered on it.
\<close>

record start_operation =
  start_sink :: NetworkMediaSinkImpl
  start_task :: AsyncCompleteImpl

text \<open>
  The rest of \<open>StartAsync\<close>, from \<open>networkSink.As\<close> on: the two event subscriptions, the
  task, the start of the recording. The tokens are kept in locals and stored in the
  engine only after \<open>put_Completed\<close> has succeeded.
\<close>

definition StartAsync_record ::
  "platform \<Rightarrow> NetworkMediaSinkImpl \<Rightarrow> CaptureEngineImpl
     \<Rightarrow> hresult outcome \<times> CaptureEngineImpl \<times> start_operation option \<times> AsyncCompleteImpl option" where
  "StartAsync_record env networkSink s =
     (case find FAILED [hr_of env (SA SA_As_IMediaExtension), hr_of env (SA SA_add_Failed)] of
        Some hr \<Rightarrow> (Returned hr, s, None, None)
      | None \<Rightarrow>
          (let failedToken = map_option (\<lambda>mc. fst (add_Failed mc)) (ce_mediaCapture s);
               s1 = with_mediaCapture (\<lambda>mc. snd (add_Failed mc)) s
           in if FAILED (hr_of env (SA SA_add_RecordLimitationExceeded))
              then (Returned (hr_of env (SA SA_add_RecordLimitationExceeded)), s1, None, None)
              else
                (let recordLimitExceededToken =
                       map_option (\<lambda>mc. fst (add_RecordLimitationExceeded mc))
                         (ce_mediaCapture s1);
                     s2 = with_mediaCapture (\<lambda>mc. snd (add_RecordLimitationExceeded mc)) s1
                 in (case find FAILED
                            [hr_of env (SA SA_MakeAndInitialize_AsyncCompleteImpl),
                             hr_of env (SA SA_StartRecordToCustomSinkAsync)] of
                       Some hr \<Rightarrow> (Returned hr, s2, None, None)
                     | None \<Rightarrow>
                         (let s3 = with_mediaCapture
                                     (\<lambda>mc. mc\<lparr>startRecordRequests :=
                                                 Suc (startRecordRequests mc)\<rparr>) s2
                          in if FAILED (hr_of env (SA SA_put_Completed))
                             then (Returned (hr_of env (SA SA_put_Completed)), s3, None, None)
                             else
                               (Returned (hr_of env (SA SA_CopyTo)),
                                s3\<lparr>ce_failedEventToken := failedToken,
                                   ce_recordLimitExceededEventToken :=
                                     recordLimitExceededToken\<rparr>,
                                Some \<lparr>start_sink = networkSink,
                                      start_task = AsyncCompleteImpl_make\<rparr>,
                                if SUCCEEDED (hr_of env (SA SA_CopyTo))
                                then Some AsyncCompleteImpl_make else None))))))"

text \<open>
  \<open>CaptureEngineImpl::StartAsync\<close>. The connection is a pointer (\<open>None\<close> is null). The
  function has no test of \<open>_mediaCapture\<close>: its first statement calls through it.
\<close>

definition StartAsync ::
  "platform \<Rightarrow> bool \<Rightarrow> nat option \<Rightarrow> CaptureEngineImpl
     \<Rightarrow> hresult outcome \<times> CaptureEngineImpl \<times> start_operation option \<times> AsyncCompleteImpl option" where
  "StartAsync env enableMrc connection s =
     (case connection of
        None \<Rightarrow> (Returned E_INVALIDARG, s, None, None)
      | Some spConnection \<Rightarrow>
          (case ce_mediaCapture s of
             None \<Rightarrow> (AccessViolation, s, None, None)
           | Some mediaCapture \<Rightarrow>
               (case find FAILED
                       [hr_of env (SA SA_get_VideoDeviceController),
                        hr_of env (SA SA_As_MediaDeviceController),
                        hr_of env (SA SA_GetMediaStreamProperties),
                        hr_of env (SA SA_As_VideoEncodingProperties),
                        hr_of env (SA SA_get_Width),
                        hr_of env (SA SA_get_Height),
                        hr_of env (SA SA_GetActivationFactory_EncodingProfile),
                        hr_of env (SA SA_CreateMp4),
                        hr_of env (SA SA_get_Video),
                        hr_of env (SA SA_put_Width),
                        hr_of env (SA SA_put_Height),
                        hr_of env (SA SA_get_Audio),
                        hr_of env (SA SA_MakeAndInitialize_NetworkMediaSinkImpl)] of
                  Some hr \<Rightarrow> (Returned hr, s, None, None)
                | None \<Rightarrow>
                    (let networkSink =
                           \<lparr>sink_connection = spConnection, sink_width = recordWidth env,
                            sink_height = recordHeight env, sink_audio = ce_enableAudio s,
                            sink_spatial = None\<rparr>
                     in (case StartAsync_mrc env enableMrc s of
                           (Some r, s1) \<Rightarrow> (r, s1, None, None)
                         | (None, s1) \<Rightarrow> StartAsync_record env networkSink s1)))))"

text \<open>The completion handler \<open>StartAsync\<close> registers on the start of the recording.\<close>

definition startRecordAsync ::
  "start_operation \<Rightarrow> CaptureEngineImpl \<Rightarrow> hresult \<times> CaptureEngineImpl \<times> AsyncCompleteImpl" where
  "startRecordAsync operation s =
     (S_OK,
      s\<lparr>ce_captureStarted := True,
        ce_networkMediaSink :=
          Some ((start_sink operation)\<lparr>sink_spatial := ce_spSpatialCoordinateSystem s\<rparr>)\<rparr>,
      AsyncCompleteImpl_Completed S_OK (start_task operation))"

text \<open>Concrete platforms, for evaluating the model.\<close>

definition platform_ok :: platform where
  "platform_ok =
     \<lparr>hr_of = (\<lambda>c. S_OK), wait_of = (\<lambda>w. wait_ok),
      devices = (\<lambda>c. [''device'']),
      videoProfiles =
        [\<lparr>ProfileId = 0,
          SupportedRecordMediaDescription =
            [\<lparr>Width = 640, Height = 480, FrameRate = Finite 30\<rparr>,
             \<lparr>Width = 1280, Height = 720, FrameRate = Finite (2997 / 100)\<rparr>]\<rparr>,
         \<lparr>ProfileId = 1,
          SupportedRecordMediaDescription =
            [\<lparr>Width = 1920, Height = 1080, FrameRate = Finite 30\<rparr>]\<rparr>],
      recordWidth = 1280, recordHeight = 720\<rparr>"

definition failing_at :: "pcall \<Rightarrow> platform" where
  "failing_at c = platform_ok\<lparr>hr_of := (\<lambda>x. if x = c then E_FAIL else S_OK)\<rparr>"

definition engine_ready :: CaptureEngineImpl where
  "engine_ready = CaptureEngineImpl_ctor\<lparr>ce_mediaCapture := Some MediaCapture_new\<rparr>"

text \<open>A platform on which no capture device is found.\<close>

definition platform_no_camera :: platform where
  "platform_no_camera = platform_ok\<lparr>devices := (\<lambda>c. [])\<rparr>"

subsection \<open>The calls of InitAsync in order\<close>

text \<open>
  The spec's chain: "every chain step either proceeds or carries the first failure to the
  final consumer". The results of the checked calls of \<open>FindDeviceId\<close>, of the two loops
  and of \<open>InitAsync\<close>, listed flat in the order the calls are made when none fails;
  \<open>failure_of\<close> is the failure a result carries.
\<close>

definition failure_of :: "hresult + 'a \<Rightarrow> hresult option" where
  "failure_of r = (case r of Inl hr \<Rightarrow> Some hr | Inr x \<Rightarrow> None)"

definition FindDeviceId_steps :: "platform \<Rightarrow> DeviceClass \<Rightarrow> hresult list" where
  "FindDeviceId_steps env deviceClass =
     [hr_of env (FD (FD_GetActivationFactory deviceClass)),
      hr_of env (FD (FD_FindAllAsyncDeviceClass deviceClass)),
      fst (SyncWait (wait_of env (W_FindDevice deviceClass)) INFINITE),
      hr_of env (FD (FD_GetResults deviceClass)),
      hr_of env (FD (FD_get_Size deviceClass)),
      (if devices env deviceClass = [] then HRESULT_FROM_WIN32 ERROR_DEVICE_NOT_CONNECTED
       else S_OK),
      hr_of env (FD (FD_GetAt deviceClass)),
      hr_of env (FD (FD_get_Id deviceClass))]"

fun description_steps ::
  "platform \<Rightarrow> nat \<Rightarrow> nat \<Rightarrow> MediaDescription list \<Rightarrow> bool \<Rightarrow> hresult list" where
  "description_steps env j i [] found = []"
| "description_steps env j i (d # ds) found =
     (if found then description_steps env j (Suc i) ds found
      else
        [hr_of env (IA (IA_GetAt_description j i)), hr_of env (IA (IA_get_FrameRate j i)),
         hr_of env (IA (IA_get_Width j i)), hr_of env (IA (IA_get_Height j i))]
        @ (if meets_request d
           then [hr_of env (IA (IA_put_PreviewMediaDescription j i)),
                 hr_of env (IA (IA_put_RecordMediaDescription j i)),
                 hr_of env (IA (IA_put_VideoProfile j i))]
                @ description_steps env j (Suc i) ds True
           else description_steps env j (Suc i) ds found))"

fun profile_steps :: "platform \<Rightarrow> nat \<Rightarrow> VideoProfile list \<Rightarrow> bool \<Rightarrow> hresult list" where
  "profile_steps env j [] found = []"
| "profile_steps env j (p # ps) found =
     [hr_of env (IA (IA_GetAt_profile j)),
      hr_of env (IA (IA_get_SupportedRecordMediaDescription j)),
      hr_of env (IA (IA_get_Size_descriptions j))]
     @ description_steps env j 0 (SupportedRecordMediaDescription p) found
     @ profile_steps env (Suc j) ps
         (found \<or> list_ex meets_request (SupportedRecordMediaDescription p))"

definition InitAsync_steps :: "platform \<Rightarrow> bool \<Rightarrow> hresult list" where
  "InitAsync_steps env enableAudio =
     FindDeviceId_steps env DeviceClass_VideoCapture
     @ (if enableAudio then FindDeviceId_steps env DeviceClass_AudioCapture else [])
     @ [hr_of env (IA IA_ActivateInstance_Settings),
        hr_of env (IA IA_put_VideoDeviceId),
        hr_of env (IA IA_put_AudioDeviceId),
        hr_of env (IA IA_put_StreamingCaptureMode),
        hr_of env (IA IA_put_PhotoCaptureSource),
        hr_of env (IA IA_As_Settings2),
        hr_of env (IA IA_put_MediaCategory),
        hr_of env (IA IA_As_Settings4),
        hr_of env (IA IA_GetActivationFactory_MediaCapture),
        hr_of env (IA IA_FindAllVideoProfiles),
        hr_of env (IA IA_get_Size_profiles)]
     @ profile_steps env 0 (videoProfiles env) False
     @ [hr_of env (IA IA_ActivateInstance_MediaCapture),
        hr_of env (IA IA_InitializeWithSettingsAsync),
        hr_of env (IA IA_MakeAndInitialize_AsyncCompleteImpl),
        hr_of env (IA IA_put_Completed),
        hr_of env (IA IA_CopyTo)]"

subsection \<open>The enumeration order of the profile search\<close>

text \<open>
  The media descriptions in the order the two loops of \<open>InitAsync\<close> visit them (outer loop
  over the profiles, inner loop over the descriptions of one profile), each with its
  profile; and the three settings the loop body writes for a description.
\<close>

definition described :: "VideoProfile list \<Rightarrow> (VideoProfile \<times> MediaDescription) list" where
  "described ps = concat (map (\<lambda>p. map (Pair p) (SupportedRecordMediaDescription p)) ps)"

definition select :: "VideoProfile \<times> MediaDescription \<Rightarrow> InitializationSettings \<Rightarrow> InitializationSettings" where
  "select pd st =
     st\<lparr>PreviewMediaDescription := Some (snd pd), RecordMediaDescription := Some (snd pd),
        VideoProfile := Some (fst pd)\<rparr>"

section \<open>Properties of the result codes\<close>

lemma hresult_simps:
  "SUCCEEDED S_OK" "\<not> FAILED S_OK" "FAILED E_FAIL" "\<not> SUCCEEDED E_FAIL"
  "FAILED E_INVALIDARG" "FAILED E_UNEXPECTED"
  by (simp_all add: SUCCEEDED_def FAILED_def S_OK_def E_FAIL_def E_INVALIDARG_def
      E_UNEXPECTED_def)

lemma FAILED_iff: "FAILED hr \<longleftrightarrow> \<not> SUCCEEDED hr"
  by (auto simp: FAILED_def SUCCEEDED_def)

section \<open>Properties of the logger\<close>

subsection \<open>The write loop\<close>

lemma write_loop_fst:
  "fst (write_loop conv wr i ms (hr, b)) = (if ms = [] then hr else wr (i + length ms - 1))"
  by (induction ms arbitrary: i hr b) auto







subsection \<open>What Log returns\<close>

text \<open>
  C2 (as the code has it). The claim that \<open>Log\<close> never returns a failure of the write
  path does not hold: \<open>Log\<close> returns what \<open>FlushMessageQueue\<close> returns. Amended: \<open>Log\<close>
  returns \<open>E_INVALIDARG\<close> for the null message; it returns \<open>S_OK\<close> for any other message
  when no data writer is attached or a flush is in flight; otherwise it returns the result
  of the flush it starts: the code of the last \<open>WriteBytes\<close> of the loop when that is a
  failure, else the code of \<open>StoreAsync\<close> when that is a failure, else the result of
  \<open>put_Completed\<close>.
\<close>

theorem Log_result:
  "fst (Log conv message env (s, b)) =
     (if message = None then E_INVALIDARG
      else if m_spDataWriter s = None \<or> m_savingToFile s then S_OK
      else if FAILED (WriteBytes_hr env (length (m_logMessages s)))
        then WriteBytes_hr env (length (m_logMessages s))
      else if FAILED (StoreAsync_hr env) then StoreAsync_hr env
      else put_Completed_hr env)"
  using write_loop_fst [of conv "WriteBytes_hr env" 0 "m_logMessages s @ [c_str (the message)]"
      S_OK b]
  by (cases message)
     (auto simp: Log_def FlushMessageQueue_def Let_def split_beta)

text \<open>
  C2, counterexample: on a logger whose writer was attached by \<open>OnFileOpened\<close>, a \<open>Log\<close>
  call during which \<open>WriteBytes\<close> fails returns that failure to its caller.
\<close>

theorem Log_surfaces_write_failure:
  "fst (Log ascii_to_bytes (Some [0x61]) env_write_fails logger_attached) = E_FAIL
   \<and> FAILED E_FAIL"
  by (simp add: Log_def FlushMessageQueue_def OnFileOpened_def logger_init_def
      logger_attached_def LoggerImpl_ctor_def env_write_fails_def env_ok_def open_ok_def
      Let_def hresult_simps WriteBytes_def ascii_to_bytes_def c_str_def)



subsection \<open>A failed flush cycle\<close>




subsection \<open>What a flush does to the platform\<close>





subsection \<open>First in, first out\<close>

lemma logged_append: "logged (es @ es') = logged es @ logged es'"
  by (induction es rule: logged.induct) auto






lemma concat_split: "xs @ ys = zs \<Longrightarrow> concat xs @ concat ys = concat zs"
  by auto




subsection \<open>Single flight\<close>





text \<open>
  A logger with the flag set and no operation pending never calls \<open>WriteBytes\<close> again:
  every later \<open>Log\<close> only appends, and no completion can arrive.
\<close>

lemma wedged_step:
  assumes "m_savingToFile (fst sb)" and "openOps (snd sb) = 0" and "storeOps (snd sb) = 0"
    and "flushOps (snd sb) = 0"
  shows "m_savingToFile (fst (step conv e sb)) \<and> snd (step conv e sb) = snd sb
     \<and> m_logMessages (fst (step conv e sb)) = m_logMessages (fst sb) @ map c_str (logged [e])"
  using assms
proof (cases e)
  case (Ev_Log message env)
  then show ?thesis using assms by (cases message) (simp_all add: Log_def Let_def)
qed simp_all

lemma wedged_run:
  assumes "m_savingToFile (fst sb)" and "openOps (snd sb) = 0" and "storeOps (snd sb) = 0"
    and "flushOps (snd sb) = 0"
  shows "snd (run conv es sb) = snd sb
     \<and> m_logMessages (fst (run conv es sb)) = m_logMessages (fst sb) @ map c_str (logged es)"
  using assms
proof (induction es arbitrary: sb)
  case Nil
  then show ?case by simp
next
  case (Cons e es)
  note w = wedged_step [OF Cons.prems, of conv e]
  have "snd (run conv es (step conv e sb)) = snd (step conv e sb)
     \<and> m_logMessages (fst (run conv es (step conv e sb)))
         = m_logMessages (fst (step conv e sb)) @ map c_str (logged es)"
    using w Cons.prems by (intro Cons.IH) simp_all
  moreover have "logged (e # es) = logged [e] @ logged es"
    using logged_append [of "[e]" es] by simp
  ultimately show ?case using w by simp
qed




section \<open>Properties of the asynchronous operations\<close>

text \<open>
  C10. A task that is still pending (started, completion not fired) when it is destroyed:
  the destructor calls \<open>Completed(E_UNEXPECTED)\<close>, which moves the task to the error
  state with that code and, when a completion handler is registered, invokes it once with
  the error status; no registered handler is left without a terminal outcome.
\<close>

theorem dtor_completes_pending_task:
  assumes "status t = Started" and "\<not> callbackMade t"
  shows "status (AsyncCompleteImpl_dtor t) = Error
     \<and> errorCode (AsyncCompleteImpl_dtor t) = E_UNEXPECTED
     \<and> (case completeDelegate t of
           None \<Rightarrow> invocations (AsyncCompleteImpl_dtor t) = invocations t
         | Some h \<Rightarrow>
             callbackMade (AsyncCompleteImpl_dtor t)
             \<and> invocations (AsyncCompleteImpl_dtor t) = invocations t @ [(h, Error)])"
  using assms
  by (auto simp: AsyncCompleteImpl_dtor_def AsyncCompleteImpl_Completed_def hresult_simps
      TryTransitionToError_def FireCompletion_def TryTransitionToCompleted_def Let_def
      split: option.splits)

text \<open>C10, witness: a started task with handler 7 registered is destroyed.\<close>

theorem dtor_completes_pending_task_witness:
  "status task_with_handler = Started \<and> \<not> callbackMade task_with_handler
   \<and> completeDelegate task_with_handler = Some 7
   \<and> status (AsyncCompleteImpl_dtor task_with_handler) = Error
   \<and> errorCode (AsyncCompleteImpl_dtor task_with_handler) = E_UNEXPECTED
   \<and> invocations (AsyncCompleteImpl_dtor task_with_handler) = [(7, Error)]"
  using dtor_completes_pending_task [of task_with_handler]
  by (simp add: task_with_handler_def PutOnComplete_def AsyncCompleteImpl_make_def
      AsyncBase_Start_def AsyncBase_new_def Let_def)

lemma wait_consts:
  "WAIT_IO_COMPLETION \<noteq> WAIT_OBJECT_0" "WAIT_TIMEOUT \<noteq> WAIT_OBJECT_0"
  "WAIT_TIMEOUT \<noteq> WAIT_IO_COMPLETION" "WAIT_OBJECT_0 \<noteq> WAIT_IO_COMPLETION"
  "WAIT_IO_COMPLETION \<noteq> WAIT_TIMEOUT" "WAIT_OBJECT_0 \<noteq> WAIT_TIMEOUT"
  "WAIT_FAILED \<noteq> WAIT_OBJECT_0" "WAIT_FAILED \<noteq> WAIT_IO_COMPLETION"
  "WAIT_OBJECT_0 \<noteq> WAIT_FAILED" "WAIT_IO_COMPLETION \<noteq> WAIT_FAILED"
  by (simp_all add: WAIT_IO_COMPLETION_def WAIT_OBJECT_0_def WAIT_TIMEOUT_def WAIT_FAILED_def)

lemma HRESULT_FROM_WIN32_positive:
  assumes "0 < sint x"
  shows "FAILED (HRESULT_FROM_WIN32 x)"
proof -
  have "bit (or (or (and x 0x0000FFFF) (push_bit 16 7)) (0x80000000 :: 32 word)) 31"
    by (simp add: bit_simps)
  then have "sint (or (or (and x 0x0000FFFF) (push_bit 16 7)) (0x80000000 :: 32 word)) < 0"
    using bit_last_iff [of "or (or (and x 0x0000FFFF) (push_bit 16 7)) (0x80000000 :: 32 word)"]
    by simp
  then show ?thesis using assms by (simp add: FAILED_def HRESULT_FROM_WIN32_def)
qed

text \<open>
  C9 (as the code has it). The claim that \<open>SyncWait\<close> waits again after an alertable
  interruption and returns a timeout error after a timeout does not hold. Amended:
  \<open>SyncWait\<close> registers the delegate as the operation's completion handler; when that
  fails it returns the failure and does not wait. Otherwise it makes exactly one wait on
  the completion event, alertable and bounded by the timeout it was given, and does not
  wait again: it returns \<open>S_OK\<close> when that wait reports the event signalled or an
  alertable interruption, and \<open>HRESULT_FROM_WIN32\<close> of the thread's last-error code for
  any other wait result, which is a failure whenever that code is positive.
\<close>

theorem SyncWait_single_wait:
  "(FAILED (put_Completed_wait_hr we)
      \<longrightarrow> SyncWait we dwMilliseconds = (put_Completed_wait_hr we, []))
   \<and> (\<not> FAILED (put_Completed_wait_hr we)
      \<longrightarrow> snd (SyncWait we dwMilliseconds) = [(dwMilliseconds, True)]
          \<and> (WaitForSingleObjectEx we 0 dwMilliseconds True = WAIT_OBJECT_0
               \<or> WaitForSingleObjectEx we 0 dwMilliseconds True = WAIT_IO_COMPLETION
             \<longrightarrow> fst (SyncWait we dwMilliseconds) = S_OK)
          \<and> (WaitForSingleObjectEx we 0 dwMilliseconds True \<noteq> WAIT_OBJECT_0
               \<and> WaitForSingleObjectEx we 0 dwMilliseconds True \<noteq> WAIT_IO_COMPLETION
             \<longrightarrow> fst (SyncWait we dwMilliseconds) = HRESULT_FROM_WIN32 (GetLastError we)
                 \<and> (0 < sint (GetLastError we) \<longrightarrow> FAILED (fst (SyncWait we dwMilliseconds)))))"
  using HRESULT_FROM_WIN32_positive [of "GetLastError we"]
  by (auto simp: SyncWait_def Let_def)

text \<open>
  C9, witness: a failed registration is returned without a wait; a wait that ends with
  the event signalled, or with an alertable interruption, gives \<open>S_OK\<close> after one wait
  with the given timeout; a failed wait with last-error code 6 gives a failure.
\<close>

theorem SyncWait_single_wait_witness:
  "FAILED (put_Completed_wait_hr wait_unregistered)
   \<and> SyncWait wait_unregistered 500 = (E_FAIL, [])
   \<and> \<not> FAILED (put_Completed_wait_hr wait_ok)
   \<and> WaitForSingleObjectEx wait_ok 0 500 True = WAIT_OBJECT_0
   \<and> SyncWait wait_ok 500 = (S_OK, [(500, True)])
   \<and> \<not> FAILED (put_Completed_wait_hr wait_interrupted)
   \<and> WaitForSingleObjectEx wait_interrupted 0 INFINITE True = WAIT_IO_COMPLETION
   \<and> SyncWait wait_interrupted INFINITE = (S_OK, [(INFINITE, True)])
   \<and> \<not> FAILED (put_Completed_wait_hr wait_failed)
   \<and> WaitForSingleObjectEx wait_failed 0 500 True \<noteq> WAIT_OBJECT_0
   \<and> WaitForSingleObjectEx wait_failed 0 500 True \<noteq> WAIT_IO_COMPLETION
   \<and> 0 < sint (GetLastError wait_failed)
   \<and> snd (SyncWait wait_failed 500) = [(500, True)]
   \<and> FAILED (fst (SyncWait wait_failed 500))"
  using SyncWait_single_wait [of wait_unregistered 500] SyncWait_single_wait [of wait_ok 500]
    SyncWait_single_wait [of wait_interrupted INFINITE] SyncWait_single_wait [of wait_failed 500]
    HRESULT_FROM_WIN32_positive [of 6]
  by (simp add: wait_unregistered_def wait_ok_def wait_interrupted_def wait_failed_def
      hresult_simps wait_consts SyncWait_def Let_def)

text \<open>
  C9, counterexample: the first wait is ended by an alertable interruption and a second
  wait would have found the event signalled, but \<open>SyncWait\<close> makes one wait and returns
  \<open>S_OK\<close>; and a wait that times out with the thread's last-error code at zero gives
  \<open>S_OK\<close>.
\<close>

theorem SyncWait_returns_early_with_success:
  "WaitForSingleObjectEx wait_interrupted 0 INFINITE True = WAIT_IO_COMPLETION
   \<and> WaitForSingleObjectEx wait_interrupted 1 INFINITE True = WAIT_OBJECT_0
   \<and> SyncWait wait_interrupted INFINITE = (S_OK, [(INFINITE, True)])
   \<and> WaitForSingleObjectEx wait_timed_out 0 500 True = WAIT_TIMEOUT
   \<and> fst (SyncWait wait_timed_out 500) = S_OK"
  by (simp add: wait_interrupted_def wait_timed_out_def SyncWait_def Let_def FAILED_def
      wait_consts HRESULT_FROM_WIN32_def S_OK_def)

section \<open>Properties of the capture engine\<close>

subsection \<open>The profile search\<close>

lemma IFR_Inr: "IFR hrs k = Inr x \<longleftrightarrow> find FAILED hrs = None \<and> k = Inr x"
  by (simp add: IFR_def split: option.splits)

lemma IFR_Inl: "IFR hrs k = Inl e \<Longrightarrow> FAILED e \<or> k = Inl e"
  by (auto simp: IFR_def split: option.splits dest: find_Some_iff[THEN iffD1])

lemma IFR_bind_Inr: "IFR_bind r k = Inr x \<longleftrightarrow> (\<exists>y. r = Inr y \<and> k y = Inr x)"
  by (cases r) (simp_all add: IFR_bind_def)

lemma description_loop_found:
  "description_loop env j p i ds (True, st) = Inr (True, st)"
  by (induction ds arbitrary: i) simp_all

lemma description_loop_result:
  "description_loop env j p i ds (False, st) = Inr r \<Longrightarrow>
   r = (case find meets_request ds of None \<Rightarrow> (False, st) | Some d \<Rightarrow> (True, select (p, d) st))"
  by (induction ds arbitrary: i)
     (auto simp: IFR_Inr description_loop_found select_def split: if_splits)

lemma find_append':
  "find P (xs @ ys) = (case find P xs of None \<Rightarrow> find P ys | Some x \<Rightarrow> Some x)"
  by (induction xs) auto

lemma find_Pair:
  "find (\<lambda>pd. P (snd pd)) (map (Pair p) ds) = map_option (Pair p) (find P ds)"
  by (induction ds) auto

lemma profile_loop_found:
  "profile_loop env j ps (True, st) = Inr r \<Longrightarrow> r = (True, st)"
  by (induction ps arbitrary: j)
     (auto simp: IFR_Inr IFR_bind_Inr description_loop_found)

lemma profile_loop_result:
  "profile_loop env j ps (False, st) = Inr r \<Longrightarrow>
   r = (case find (\<lambda>pd. meets_request (snd pd)) (described ps) of
          None \<Rightarrow> (False, st) | Some pd \<Rightarrow> (True, select pd st))"
proof (induction ps arbitrary: j)
  case Nil
  then show ?case by (simp add: described_def)
next
  case (Cons p ps)
  from Cons.prems obtain y where
    y: "description_loop env j p 0 (SupportedRecordMediaDescription p) (False, st) = Inr y"
    and rest: "profile_loop env (Suc j) ps y = Inr r"
    by (auto simp: IFR_Inr IFR_bind_Inr)
  note dl = description_loop_result [OF y]
  show ?case
  proof (cases "find meets_request (SupportedRecordMediaDescription p)")
    case None
    with dl have "y = (False, st)" by simp
    with rest Cons.IH [of "Suc j"] None show ?thesis
      by (simp add: described_def find_append' find_Pair)
  next
    case (Some d)
    with dl have "y = (True, select (p, d) st)" by simp
    with rest profile_loop_found [of env "Suc j" ps "select (p, d) st" r] Some show ?thesis
      by (simp add: described_def find_append' find_Pair)
  qed
qed

lemma find_FAILED_ok: "(\<forall>x \<in> set hrs. SUCCEEDED x) \<Longrightarrow> find FAILED hrs = None"
  by (induction hrs) (auto simp: FAILED_iff)

lemma description_loop_total:
  "(\<forall>c. SUCCEEDED (hr_of env c)) \<Longrightarrow> \<exists>r. description_loop env j p i ds acc = Inr r"
  by (induction ds arbitrary: i acc) (auto simp: IFR_def find_FAILED_ok FAILED_iff)

lemma profile_loop_total:
  "(\<forall>c. SUCCEEDED (hr_of env c)) \<Longrightarrow> \<exists>r. profile_loop env j ps acc = Inr r"
proof (induction ps arbitrary: j acc)
  case Nil
  then show ?case by simp
next
  case (Cons p ps)
  obtain y where "description_loop env j p 0 (SupportedRecordMediaDescription p) acc = Inr y"
    using description_loop_total [OF Cons.prems] by blast
  then show ?case using Cons.IH [OF Cons.prems, of "Suc j" y] Cons.prems
    by (simp add: IFR_def FAILED_iff IFR_bind_def)
qed

lemma FindDeviceId_ok:
  assumes "\<forall>c. SUCCEEDED (hr_of env c)" and "SUCCEEDED (fst (SyncWait (wait_of env (W_FindDevice dc)) INFINITE))"
    and "devices env dc \<noteq> []"
  shows "\<exists>str. FindDeviceId env dc = Inr str"
  using assms
  by (cases "devices env dc")
     (auto simp: FindDeviceId_def IFR_def FAILED_iff hresult_simps)

text \<open>
  C8. Whenever \<open>InitAsync\<close> gets as far as issuing the platform initialize call, the
  settings it passes hold the first media description, in enumeration order (outer loop
  over the profiles, inner loop over the descriptions), whose width is at least 1280,
  whose height is at least 720 and whose frame rate rounds to 30, as preview and as record
  description, together with the profile it belongs to; no later description is selected,
  and when no description qualifies the three settings stay unset. \<open>InitAsync\<close> does get
  that far when every platform call succeeds and the devices asked for exist.
\<close>

theorem InitAsync_selects_first_match:
  "(\<forall>operation. fst (snd (snd (InitAsync env enableAudio action s))) = Some operation \<longrightarrow>
      (case find (\<lambda>pd. meets_request (snd pd)) (described (videoProfiles env)) of
         None \<Rightarrow>
           PreviewMediaDescription (init_settings operation) = None
           \<and> RecordMediaDescription (init_settings operation) = None
           \<and> VideoProfile (init_settings operation) = None
       | Some pd \<Rightarrow>
           PreviewMediaDescription (init_settings operation) = Some (snd pd)
           \<and> RecordMediaDescription (init_settings operation) = Some (snd pd)
           \<and> VideoProfile (init_settings operation) = Some (fst pd)))
   \<and> (action \<and> (\<forall>c. SUCCEEDED (hr_of env c)) \<and> (\<forall>w. SUCCEEDED (fst (SyncWait (wait_of env w) INFINITE)))
        \<and> devices env DeviceClass_VideoCapture \<noteq> []
        \<and> (enableAudio \<longrightarrow> devices env DeviceClass_AudioCapture \<noteq> [])
      \<longrightarrow> fst (snd (snd (InitAsync env enableAudio action s))) \<noteq> None)"
proof (intro conjI allI impI)
  fix operation
  assume op: "fst (snd (snd (InitAsync env enableAudio action s))) = Some operation"
  then obtain st0 r where loop: "profile_loop env 0 (videoProfiles env) (False, st0) = Inr r"
    and st0: "PreviewMediaDescription st0 = None" "RecordMediaDescription st0 = None"
      "VideoProfile st0 = None"
    and r: "init_settings operation = snd r"
    by (auto simp: InitAsync_def Let_def IFR_bind_Inr IFR_Inr IFR_bind_def IFR_def
        split: if_splits sum.splits option.splits)
  show "case find (\<lambda>pd. meets_request (snd pd)) (described (videoProfiles env)) of
         None \<Rightarrow>
           PreviewMediaDescription (init_settings operation) = None
           \<and> RecordMediaDescription (init_settings operation) = None
           \<and> VideoProfile (init_settings operation) = None
       | Some pd \<Rightarrow>
           PreviewMediaDescription (init_settings operation) = Some (snd pd)
           \<and> RecordMediaDescription (init_settings operation) = Some (snd pd)
           \<and> VideoProfile (init_settings operation) = Some (fst pd)"
    using profile_loop_result [OF loop] st0 r
    by (auto simp: select_def split: option.splits)
next
  assume a: "action \<and> (\<forall>c. SUCCEEDED (hr_of env c)) \<and> (\<forall>w. SUCCEEDED (fst (SyncWait (wait_of env w) INFINITE)))
        \<and> devices env DeviceClass_VideoCapture \<noteq> []
        \<and> (enableAudio \<longrightarrow> devices env DeviceClass_AudioCapture \<noteq> [])"
  then have ok: "\<forall>c. SUCCEEDED (hr_of env c)" by simp
  obtain v where v: "FindDeviceId env DeviceClass_VideoCapture = Inr v"
    using FindDeviceId_ok [of env DeviceClass_VideoCapture] a by auto
  have au: "enableAudio \<Longrightarrow> \<exists>x. FindDeviceId env DeviceClass_AudioCapture = Inr x"
    using FindDeviceId_ok [of env DeviceClass_AudioCapture] a by auto
  show "fst (snd (snd (InitAsync env enableAudio action s))) \<noteq> None"
  proof (cases enableAudio)
    case True
    then obtain x where x: "FindDeviceId env DeviceClass_AudioCapture = Inr x" using au by blast
    obtain r where "profile_loop env 0 (videoProfiles env)
                    (False,
                     \<lparr>VideoDeviceId = v, AudioDeviceId = Some x,
                      CaptureMode = StreamingCaptureMode_AudioAndVideo,
                      PreviewMediaDescription = None, RecordMediaDescription = None,
                      VideoProfile = None\<rparr>) = Inr r"
      using profile_loop_total [OF ok] by blast
    then show ?thesis using a v x True
      by (simp add: InitAsync_def Let_def IFR_bind_def IFR_def FAILED_iff)
  next
    case False
    obtain r where "profile_loop env 0 (videoProfiles env)
                    (False,
                     \<lparr>VideoDeviceId = v, AudioDeviceId = None,
                      CaptureMode = StreamingCaptureMode_Video,
                      PreviewMediaDescription = None, RecordMediaDescription = None,
                      VideoProfile = None\<rparr>) = Inr r"
      using profile_loop_total [OF ok] by blast
    then show ?thesis using a v False
      by (simp add: InitAsync_def Let_def IFR_bind_def IFR_def FAILED_iff)
  qed
qed

lemma c_round_2997: "c_round (Finite (2997 / 100)) = Finite 30"
  by (simp add: c_round_def floor_eq_iff)

lemma c_round_30: "c_round (Finite 30) = Finite 30"
  by (simp add: c_round_def floor_eq_iff)

lemmas engine_eval =
  InitAsync_def FindDeviceId_def IFR_def IFR_bind_def platform_ok_def failing_at_def
  wait_ok_def SyncWait_def CaptureEngineImpl_ctor_def engine_ready_def MediaCapture_new_def
  AsyncCompleteImpl_make_def AsyncBase_Start_def AsyncBase_new_def meets_request_def
  c_round_2997 c_round_30 double_eq_def described_def Let_def hresult_simps
  StartAsync_def StartAsync_mrc_def StartAsync_record_def with_mediaCapture_def
  add_Failed_def add_RecordLimitationExceeded_def get_IsInitialized_def

text \<open>
  C8, witness: the first profile offers 640x480 at 30 and 1280x720 at 29.97, the second
  1920x1080 at 30; the 1280x720 description of the first profile is selected.
\<close>

theorem InitAsync_selects_first_match_witness:
  "fst (InitAsync platform_ok False True CaptureEngineImpl_ctor) = S_OK
   \<and> map_option (\<lambda>operation. RecordMediaDescription (init_settings operation))
        (fst (snd (snd (InitAsync platform_ok False True CaptureEngineImpl_ctor))))
      = Some (Some \<lparr>Width = 1280, Height = 720, FrameRate = Finite (2997 / 100)\<rparr>)
   \<and> map_option (\<lambda>operation. map_option ProfileId (VideoProfile (init_settings operation)))
        (fst (snd (snd (InitAsync platform_ok False True CaptureEngineImpl_ctor))))
      = Some (Some 0)"
  using InitAsync_selects_first_match [of platform_ok False True CaptureEngineImpl_ctor]
  by (simp add: engine_eval)

subsection \<open>A failed InitAsync\<close>

lemma HRESULT_FROM_WIN32_not_connected:
  "FAILED (HRESULT_FROM_WIN32 ERROR_DEVICE_NOT_CONNECTED)"
  by (simp add: HRESULT_FROM_WIN32_def ERROR_DEVICE_NOT_CONNECTED_def FAILED_def)

lemma failure_of_IFR:
  "failure_of (IFR hrs k) = (case find FAILED hrs of Some e \<Rightarrow> Some e | None \<Rightarrow> failure_of k)"
  by (simp add: IFR_def failure_of_def split: option.splits)

lemma find_steps_IFR:
  "find FAILED rest = failure_of k \<Longrightarrow> find FAILED (hrs @ rest) = failure_of (IFR hrs k)"
  by (simp add: find_append' failure_of_IFR del: find.simps split: option.splits)

lemma FindDeviceId_failure:
  "find FAILED (FindDeviceId_steps env dc) = failure_of (FindDeviceId env dc)"
proof -
  let ?k = "case devices env dc of
          [] \<Rightarrow> Inl (HRESULT_FROM_WIN32 ERROR_DEVICE_NOT_CONNECTED)
        | str # rest \<Rightarrow> Inr str"
  have eq: "FindDeviceId env dc = IFR (FindDeviceId_steps env dc) ?k"
    by (simp add: FindDeviceId_def FindDeviceId_steps_def del: find.simps)
  show ?thesis
  proof (cases "find FAILED (FindDeviceId_steps env dc)")
    case None
    moreover have "(if devices env dc = [] then HRESULT_FROM_WIN32 ERROR_DEVICE_NOT_CONNECTED
       else S_OK) \<in> set (FindDeviceId_steps env dc)"
      by (simp add: FindDeviceId_steps_def)
    ultimately have "\<not> FAILED (if devices env dc = []
       then HRESULT_FROM_WIN32 ERROR_DEVICE_NOT_CONNECTED else S_OK)"
      unfolding find_None_iff by blast
    then have "devices env dc \<noteq> []"
      by (auto simp: HRESULT_FROM_WIN32_not_connected)
    then have "failure_of ?k = None"
      by (cases "devices env dc") (simp_all add: failure_of_def)
    then show ?thesis using None by (simp add: eq failure_of_IFR del: find.simps)
  next
    case (Some e)
    then show ?thesis by (simp add: eq failure_of_IFR del: find.simps)
  qed
qed

lemma description_loop_flag:
  "description_loop env j p i ds (found, st) = Inr r \<Longrightarrow>
   fst r = (found \<or> list_ex meets_request ds)"
  by (induction ds arbitrary: i found st) (auto simp: IFR_Inr split: if_splits)

lemma description_loop_failure:
  "find FAILED (description_steps env j i ds found)
     = failure_of (description_loop env j p i ds (found, st))"
proof (induction ds arbitrary: i found st)
  case Nil
  then show ?case by (simp add: failure_of_def)
next
  case (Cons d ds)
  show ?case
  proof (cases found)
    case True
    then show ?thesis using Cons.IH [of "Suc i" True st] by (simp del: find.simps)
  next
    case nf: False
    show ?thesis
    proof (cases "meets_request d")
      case True
      have "find FAILED
              ([hr_of env (IA (IA_GetAt_description j i)), hr_of env (IA (IA_get_FrameRate j i)),
                hr_of env (IA (IA_get_Width j i)), hr_of env (IA (IA_get_Height j i))]
               @ ([hr_of env (IA (IA_put_PreviewMediaDescription j i)),
                   hr_of env (IA (IA_put_RecordMediaDescription j i)),
                   hr_of env (IA (IA_put_VideoProfile j i))]
                  @ description_steps env j (Suc i) ds True))
            = failure_of (description_loop env j p i (d # ds) (found, st))"
        unfolding description_loop.simps using nf True
        by (simp only: if_True if_False not_False_eq_True)
           (intro find_steps_IFR Cons.IH)
      then show ?thesis using nf True by (simp del: find.simps)
    next
      case False
      have "find FAILED
              ([hr_of env (IA (IA_GetAt_description j i)), hr_of env (IA (IA_get_FrameRate j i)),
                hr_of env (IA (IA_get_Width j i)), hr_of env (IA (IA_get_Height j i))]
               @ description_steps env j (Suc i) ds False)
            = failure_of (description_loop env j p i (d # ds) (found, st))"
        unfolding description_loop.simps using nf False
        by (simp only: if_True if_False not_False_eq_True)
           (intro find_steps_IFR Cons.IH)
      then show ?thesis using nf False by (simp del: find.simps)
    qed
  qed
qed

lemma failure_of_IFR_bind:
  "failure_of (IFR_bind r k) = (case r of Inl e \<Rightarrow> Some e | Inr x \<Rightarrow> failure_of (k x))"
  by (cases r) (simp_all add: IFR_bind_def failure_of_def)

lemma profile_loop_failure:
  "find FAILED (profile_steps env j ps found) = failure_of (profile_loop env j ps (found, st))"
proof (induction ps arbitrary: j found st)
  case Nil
  then show ?case by (simp add: failure_of_def)
next
  case (Cons p ps)
  let ?ds = "SupportedRecordMediaDescription p"
  have inner: "find FAILED
        (description_steps env j 0 ?ds found
         @ profile_steps env (Suc j) ps (found \<or> list_ex meets_request ?ds))
      = failure_of (IFR_bind (description_loop env j p 0 ?ds (found, st))
                      (profile_loop env (Suc j) ps))"
  proof (cases "description_loop env j p 0 ?ds (found, st)")
    case (Inl e)
    then show ?thesis
      using description_loop_failure [of env j 0 ?ds found p st]
      by (simp add: find_append' IFR_bind_def failure_of_def del: find.simps)
  next
    case (Inr r)
    then have f: "fst r = (found \<or> list_ex meets_request ?ds)"
      by (rule description_loop_flag)
    have "find FAILED (profile_steps env (Suc j) ps (found \<or> list_ex meets_request ?ds))
        = failure_of (profile_loop env (Suc j) ps r)"
      using Cons.IH [of "Suc j" "fst r" "snd r"] f by (cases r) simp
    then show ?thesis
      using description_loop_failure [of env j 0 ?ds found p st] Inr
      by (simp add: find_append' IFR_bind_def failure_of_def del: find.simps)
  qed
  have "find FAILED
          ([hr_of env (IA (IA_GetAt_profile j)),
            hr_of env (IA (IA_get_SupportedRecordMediaDescription j)),
            hr_of env (IA (IA_get_Size_descriptions j))]
           @ (description_steps env j 0 ?ds found
              @ profile_steps env (Suc j) ps (found \<or> list_ex meets_request ?ds)))
        = failure_of (profile_loop env j (p # ps) (found, st))"
    unfolding profile_loop.simps by (intro find_steps_IFR inner)
  then show ?case by (simp del: find.simps)
qed

lemma InitAsync_code:
  assumes action
  shows "fst (InitAsync env enableAudio action s)
           = (case find FAILED (InitAsync_steps env enableAudio) of
                Some e \<Rightarrow> e | None \<Rightarrow> hr_of env (IA IA_CopyTo))"
proof -
  let ?st = "\<lambda>v a. \<lparr>VideoDeviceId = v, AudioDeviceId = (if enableAudio then Some a else None),
                      CaptureMode =
                        (if enableAudio then StreamingCaptureMode_AudioAndVideo
                         else StreamingCaptureMode_Video),
                      PreviewMediaDescription = None, RecordMediaDescription = None,
                      VideoProfile = None\<rparr>"
  have pl: "\<And>v a. find FAILED (profile_steps env 0 (videoProfiles env) False)
      = failure_of (profile_loop env 0 (videoProfiles env) (False, ?st v a))"
    by (rule profile_loop_failure)
  show ?thesis
  proof (cases "FindDeviceId env DeviceClass_VideoCapture")
    case (Inl e)
    then show ?thesis using assms
      by (simp add: InitAsync_def Let_def IFR_bind_def InitAsync_steps_def find_append'
          FindDeviceId_failure failure_of_def)
  next
    case v: (Inr v)
    show ?thesis
    proof (cases "if enableAudio then FindDeviceId env DeviceClass_AudioCapture else Inr []")
      case (Inl e)
      then show ?thesis using assms v
        by (simp add: InitAsync_def Let_def IFR_bind_def InitAsync_steps_def find_append'
            FindDeviceId_failure failure_of_def split: if_splits)
    next
      case a: (Inr a)
      have au: "find FAILED
          (if enableAudio then FindDeviceId_steps env DeviceClass_AudioCapture else []) = None"
        using a by (simp add: FindDeviceId_failure failure_of_def split: if_splits)
      show ?thesis
      proof (cases "profile_loop env 0 (videoProfiles env) (False, ?st v a)")
        case (Inl e)
        then show ?thesis using assms v a au pl [of v a]
          by (simp add: InitAsync_def Let_def IFR_bind_def IFR_def InitAsync_steps_def
              find_append' FindDeviceId_failure failure_of_def split: option.splits)
      next
        case (Inr r)
        then show ?thesis using assms v a au pl [of v a]
          by (simp add: InitAsync_def Let_def IFR_bind_def IFR_def InitAsync_steps_def
              find_append' FindDeviceId_failure failure_of_def split: option.splits)
      qed
    qed
  qed
qed

text \<open>
  C4 (as the code has it). The claim that a failed \<open>InitAsync\<close> hands back a task that
  terminates with the error, on a session whose flag reports "not initialized", does not
  hold. Amended: when \<open>InitAsync\<close> returns a failure code, that code is the originating
  error, the result of the first call that fails in the order the calls are made
  (\<open>E_INVALIDARG\<close> when the action pointer is null), returned as the function's own
  result; no task is written to \<open>*action\<close>; \<open>_mediaCapture\<close> and \<open>_isInitialized\<close> are
  as before the call; and a completion handler is left registered only when the failing
  step is the final \<open>CopyTo\<close>.
\<close>

theorem InitAsync_failure:
  assumes "FAILED (fst (InitAsync env enableAudio action s))"
  shows "snd (snd (snd (InitAsync env enableAudio action s))) = None
     \<and> ce_mediaCapture (fst (snd (InitAsync env enableAudio action s))) = ce_mediaCapture s
     \<and> ce_isInitialized (fst (snd (InitAsync env enableAudio action s))) = ce_isInitialized s
     \<and> (fst (snd (snd (InitAsync env enableAudio action s))) = None
        \<or> fst (InitAsync env enableAudio action s) = hr_of env (IA IA_CopyTo))
     \<and> (if action
         then find FAILED (InitAsync_steps env enableAudio)
                = Some (fst (InitAsync env enableAudio action s))
         else fst (InitAsync env enableAudio action s) = E_INVALIDARG)"
proof -
  have 1: "snd (snd (snd (InitAsync env enableAudio action s))) = None
     \<and> ce_mediaCapture (fst (snd (InitAsync env enableAudio action s))) = ce_mediaCapture s
     \<and> ce_isInitialized (fst (snd (InitAsync env enableAudio action s))) = ce_isInitialized s
     \<and> (fst (snd (snd (InitAsync env enableAudio action s))) = None
        \<or> fst (InitAsync env enableAudio action s) = hr_of env (IA IA_CopyTo))"
    using assms
    by (auto simp: InitAsync_def Let_def FAILED_iff IFR_bind_def split: sum.splits if_splits)
  have 2: "find FAILED (InitAsync_steps env enableAudio)
             = Some (fst (InitAsync env enableAudio action s))" if action
  proof (cases "find FAILED (InitAsync_steps env enableAudio)")
    case None
    then have "\<not> FAILED (hr_of env (IA IA_CopyTo))"
      by (auto simp: InitAsync_steps_def find_None_iff)
    then show ?thesis using InitAsync_code [OF that, of env enableAudio s] None assms by simp
  next
    case (Some e)
    then show ?thesis using InitAsync_code [OF that, of env enableAudio s] by simp
  qed
  have 3: "fst (InitAsync env enableAudio action s) = E_INVALIDARG" if "\<not> action"
    using that by (simp add: InitAsync_def)
  show ?thesis using 1 2 3 by simp
qed

text \<open>
  C4, witness: with no capture device, \<open>InitAsync\<close> on a new engine returns the
  device-not-connected code, the first failure of the call sequence, no operation and no
  task, and the engine's media capture is still null and its flag still true; with a
  failing \<open>InitializeWithSettingsAsync\<close> it returns that call's code.
\<close>

theorem InitAsync_failure_witness:
  "FAILED (fst (InitAsync platform_no_camera False True CaptureEngineImpl_ctor))
   \<and> fst (InitAsync platform_no_camera False True CaptureEngineImpl_ctor)
       = HRESULT_FROM_WIN32 ERROR_DEVICE_NOT_CONNECTED
   \<and> snd (snd (InitAsync platform_no_camera False True CaptureEngineImpl_ctor)) = (None, None)
   \<and> ce_mediaCapture (fst (snd (InitAsync platform_no_camera False True CaptureEngineImpl_ctor)))
       = None
   \<and> ce_isInitialized (fst (snd (InitAsync platform_no_camera False True CaptureEngineImpl_ctor)))
   \<and> find FAILED (InitAsync_steps platform_no_camera False)
       = Some (HRESULT_FROM_WIN32 ERROR_DEVICE_NOT_CONNECTED)
   \<and> FAILED (fst (InitAsync (failing_at (IA IA_InitializeWithSettingsAsync)) True True
                    CaptureEngineImpl_ctor))
   \<and> fst (InitAsync (failing_at (IA IA_InitializeWithSettingsAsync)) True True
             CaptureEngineImpl_ctor) = E_FAIL
   \<and> find FAILED (InitAsync_steps (failing_at (IA IA_InitializeWithSettingsAsync)) True)
       = Some E_FAIL
   \<and> snd (snd (InitAsync (failing_at (IA IA_InitializeWithSettingsAsync)) True True
                  CaptureEngineImpl_ctor)) = (None, None)"
  using InitAsync_failure [of platform_no_camera False True CaptureEngineImpl_ctor]
    InitAsync_failure [of "failing_at (IA IA_InitializeWithSettingsAsync)" True True
      CaptureEngineImpl_ctor]
  by (simp add: platform_no_camera_def engine_eval HRESULT_FROM_WIN32_not_connected
      InitAsync_steps_def FindDeviceId_steps_def)

text \<open>
  C4, counterexample: on the first input no task is returned to the caller, and
  \<open>get_IsInitialized\<close> reports true before and after the failed call.
\<close>

theorem InitAsync_failure_returns_no_task:
  "FAILED (fst (InitAsync platform_no_camera False True CaptureEngineImpl_ctor))
   \<and> snd (snd (snd (InitAsync platform_no_camera False True CaptureEngineImpl_ctor))) = None
   \<and> get_IsInitialized True CaptureEngineImpl_ctor = (S_OK, Some True)
   \<and> get_IsInitialized True
        (fst (snd (InitAsync platform_no_camera False True CaptureEngineImpl_ctor)))
       = (S_OK, Some True)"
  by (simp add: platform_no_camera_def engine_eval HRESULT_FROM_WIN32_not_connected)

subsection \<open>StartAsync\<close>

text \<open>
  C1 (the code at the failing input). On an engine whose \<open>InitAsync\<close> has not completed,
  whatever \<open>InitAsync\<close> returned, \<open>_mediaCapture\<close> is null and \<open>StartAsync\<close> with a
  connection does not return an error code: its first call goes through the null pointer.
  The engine is left as it was.
\<close>

theorem StartAsync_before_init_faults:
  "StartAsync env' enableMrc (Some connection)
     (fst (snd (InitAsync env enableAudio action CaptureEngineImpl_ctor)))
   = (AccessViolation, fst (snd (InitAsync env enableAudio action CaptureEngineImpl_ctor)),
      None, None)"
proof -
  have "ce_mediaCapture (fst (snd (InitAsync env enableAudio action CaptureEngineImpl_ctor))) = None"
    by (simp add: InitAsync_def Let_def CaptureEngineImpl_ctor_def split: sum.splits)
  then show ?thesis by (simp add: StartAsync_def)
qed

text \<open>
  C5 (the code at the failing input). On an initialized engine, when
  \<open>add_RecordLimitationExceeded\<close> fails after \<open>add_Failed\<close> has succeeded, \<open>StartAsync\<close>
  returns the failure and the failed-event handler is still registered, its token stored
  nowhere; when the creation of the task fails after both subscriptions, both handlers
  are still registered and no recording was requested.
\<close>

theorem StartAsync_leaks_subscription:
  "fst (StartAsync (failing_at (SA SA_add_RecordLimitationExceeded)) False (Some 1) engine_ready)
     = Returned E_FAIL
   \<and> map_option failedHandlers
        (ce_mediaCapture (fst (snd (StartAsync (failing_at (SA SA_add_RecordLimitationExceeded))
           False (Some 1) engine_ready)))) = Some [0]
   \<and> ce_failedEventToken (fst (snd (StartAsync (failing_at (SA SA_add_RecordLimitationExceeded))
           False (Some 1) engine_ready))) = None
   \<and> fst (StartAsync (failing_at (SA SA_MakeAndInitialize_AsyncCompleteImpl)) False (Some 1)
           engine_ready) = Returned E_FAIL
   \<and> map_option (\<lambda>mc. (failedHandlers mc, recordLimitHandlers mc, startRecordRequests mc))
        (ce_mediaCapture (fst (snd (StartAsync
           (failing_at (SA SA_MakeAndInitialize_AsyncCompleteImpl)) False (Some 1) engine_ready))))
       = Some ([0], [1], 0)"
  by (simp add: engine_eval)

end
